theory Spec2Isabelle
  imports Complex_Main
begin

section \<open>Data model\<close>

text \<open>
  The \<^verbatim>\<open>reviews\<close> table of \<^verbatim>\<open>app/models/reviews.py\<close>. The column \<^verbatim>\<open>id\<close> is called
  \<open>review_id\<close> here, since \<open>id\<close> is the identity function of HOL. Python integers are
  \<open>int\<close>; the nullable \<^verbatim>\<open>comment\<close> is an option; the timestamp is a number.
\<close>

record review =
  review_id :: int
  user_id :: int
  product_id :: int
  comment :: "string option"
  comment_date :: int
  grade :: int
  is_active :: bool

text \<open>
  Modelled from the spec: the \<^verbatim>\<open>products\<close> table (\<^verbatim>\<open>app/models/products.py\<close> is not among the
  sources). The routes read its columns \<^verbatim>\<open>id\<close> and \<^verbatim>\<open>is_active\<close> and write \<^verbatim>\<open>rating\<close>, which is
  null when the product has no active review.
\<close>

record product =
  p_id :: int
  p_is_active :: bool
  rating :: "int option"

text \<open>
  Modelled from the spec: the request body \<^verbatim>\<open>ReviewCreate\<close> of \<^verbatim>\<open>app/schemas.py\<close> (not among
  the sources), \<^verbatim>\<open>{product_id, grade, comment?}\<close>.
\<close>

record review_create =
  rc_product_id :: int
  rc_grade :: int
  rc_comment :: "string option"

text \<open>
  Modelled from the spec: the authenticated principal that \<^verbatim>\<open>get_current_buyer\<close> of
  \<^verbatim>\<open>app/auth.py\<close> (not among the sources) hands to the routes, with its \<^verbatim>\<open>id\<close> and \<^verbatim>\<open>role\<close>.
\<close>

record user =
  u_id :: int
  role :: string

text \<open>The database the session works on: the rows of both tables, in insertion order.\<close>

record db =
  reviews :: "review list"
  products :: "product list"

text \<open>\<^verbatim>\<open>HTTPException(status_code, detail)\<close>.\<close>

datatype http_exception = HTTPException int string

section \<open>Queries\<close>

text \<open>
  The values of an \<^verbatim>\<open>INTEGER\<close> column, which is what \<^verbatim>\<open>Mapped[int]\<close> declares: 32 bits, signed.
  The id a request carries (\<^verbatim>\<open>review.product_id\<close>, \<^verbatim>\<open>review_id\<close>) is an unbounded Python
  integer that the route binds to a parameter of this type. The queries below are the
  queries on ids of this range; for an id outside it the database driver refuses the
  parameter before the statement runs, the request ends in an internal error and not in an
  \<^verbatim>\<open>HTTPException\<close> of the route, and the routes below do not describe it. Whatever is stated
  about a request with no matching row is therefore stated for ids of this range.
\<close>

definition in_integer_range :: "int \<Rightarrow> bool" where
  "in_integer_range i = (- 2147483648 \<le> i \<and> i \<le> 2147483647)"

text \<open>\<^verbatim>\<open>result.first()\<close>: the first row of a result, or \<^verbatim>\<open>None\<close>.\<close>

definition first_row :: "'a list \<Rightarrow> 'a option" where
  "first_row rows = (case rows of [] \<Rightarrow> None | r # _ \<Rightarrow> Some r)"

text \<open>
  \<^verbatim>\<open>func.avg\<close>: SQL's \<^verbatim>\<open>AVG\<close> is \<^verbatim>\<open>NULL\<close> over no rows and the arithmetic mean otherwise. The
  mean is kept exact, as a rational.
\<close>

definition avg :: "int list \<Rightarrow> rat option" where
  "avg gs = (if gs = [] then None else Some (of_int (sum_list gs) / of_int (int (length gs))))"

text \<open>
  Python's \<^verbatim>\<open>round(x)\<close> with one argument: the nearest integer, a tie going to the even
  neighbour (for \<^verbatim>\<open>float\<close> and for \<^verbatim>\<open>Decimal\<close> alike).
\<close>

definition py_round :: "rat \<Rightarrow> int" where
  "py_round x =
     (let f = \<lfloor>x\<rfloor>; d = x - of_int f
      in if d < 1 / 2 then f
         else if 1 / 2 < d then f + 1
         else if even f then f else f + 1)"

text \<open>
  The primary key a new row of \<^verbatim>\<open>reviews\<close> gets from the database: one above the largest
  key in the table.
\<close>

definition next_review_id :: "review list \<Rightarrow> int" where
  "next_review_id rows = fold max (map review_id rows) 0 + 1"

text \<open>
  \<^verbatim>\<open>select(func.avg(ReviewModel.grade)).where(product_id == pid, is_active == True)\<close>
  followed by \<^verbatim>\<open>int(round(rating_avg)) if rating_avg is not None else None\<close>.
\<close>

definition rating_value :: "int \<Rightarrow> review list \<Rightarrow> int option" where
  "rating_value pid rows =
     map_option py_round
       (avg (map grade (filter (\<lambda>r. product_id r = pid \<and> is_active r) rows)))"

text \<open>\<^verbatim>\<open>update(ProductModel).where(ProductModel.id == pid).values(rating=v)\<close>.\<close>

definition update_rating :: "int \<Rightarrow> int option \<Rightarrow> product list \<Rightarrow> product list" where
  "update_rating pid v rows = map (\<lambda>p. if p_id p = pid then p\<lparr>rating := v\<rparr> else p) rows"

text \<open>\<^verbatim>\<open>update(ReviewModel).where(ReviewModel.id == rid).values(is_active=False)\<close>.\<close>

definition deactivate :: "int \<Rightarrow> review list \<Rightarrow> review list" where
  "deactivate rid rows = map (\<lambda>r. if review_id r = rid then r\<lparr>is_active := False\<rparr> else r) rows"

section \<open>Routes\<close>

text \<open>
  Every route takes the database and returns it with its answer, so that what a failing
  request leaves behind is part of the result. An \<^verbatim>\<open>HTTPException\<close> raised is \<open>Inl\<close>.
\<close>

definition get_all_rewviews :: "db \<Rightarrow> review list \<times> db" where
  "get_all_rewviews d = (filter (\<lambda>r. is_active r) (reviews d), d)"

text \<open>
  \<^verbatim>\<open>ReviewModel(**review.model_dump(), user_id=current_user.id)\<close> once added and committed:
  the fields of the request, the author, and the column defaults (\<^verbatim>\<open>is_active\<close> true,
  \<^verbatim>\<open>comment_date\<close> the time \<open>now\<close> that \<^verbatim>\<open>datetime.now\<close> returns, a fresh \<^verbatim>\<open>id\<close>).
\<close>

definition new_review :: "review_create \<Rightarrow> user \<Rightarrow> int \<Rightarrow> db \<Rightarrow> review" where
  "new_review rc current_user now d =
     \<lparr>review_id = next_review_id (reviews d),
      user_id = u_id current_user,
      product_id = rc_product_id rc,
      comment = rc_comment rc,
      comment_date = now,
      grade = rc_grade rc,
      is_active = True\<rparr>"

definition create_review ::
  "review_create \<Rightarrow> user \<Rightarrow> int \<Rightarrow> db \<Rightarrow> (http_exception + review) \<times> db" where
  "create_review rc current_user now d =
     (case first_row (filter (\<lambda>p. p_id p = rc_product_id rc \<and> p_is_active p) (products d)) of
        None \<Rightarrow> (Inl (HTTPException 404 ''Product not found or inactive''), d)
      | Some _ \<Rightarrow>
         (case first_row (filter (\<lambda>r. user_id r = u_id current_user \<and> is_active r) (reviews d)) of
            Some _ \<Rightarrow> (Inl (HTTPException 409 ''You already have review for this product''), d)
          | None \<Rightarrow>
             if rc_grade rc < 1 \<or> rc_grade rc > 5
             then (Inl (HTTPException 422 ''Unprocessable Entity''), d)
             else
               let db_review = new_review rc current_user now d;
                   d1 = d\<lparr>reviews := reviews d @ [db_review]\<rparr>;
                   v = rating_value (rc_product_id rc) (reviews d1);
                   d2 = d1\<lparr>products := update_rating (rc_product_id rc) v (products d1)\<rparr>
               in (Inr db_review, d2)))"

definition delete_review ::
  "int \<Rightarrow> user \<Rightarrow> db \<Rightarrow> (http_exception + (string \<times> string) list) \<times> db" where
  "delete_review rid current_user d =
     (case first_row (filter (\<lambda>r. review_id r = rid \<and> is_active r) (reviews d)) of
        None \<Rightarrow> (Inl (HTTPException 404 ''Review not found or inactive''), d)
      | Some review \<Rightarrow>
         (case first_row
                 (filter (\<lambda>r. review_id r = rid \<and> is_active r
                               \<and> (user_id r = u_id current_user \<or> role current_user = ''admin''))
                    (reviews d)) of
            None \<Rightarrow> (Inl (HTTPException 403 ''You can only update your own reviews''), d)
          | Some _ \<Rightarrow>
             let d1 = d\<lparr>reviews := deactivate rid (reviews d)\<rparr>;
                 v = rating_value (product_id review) (reviews d1);
                 d2 = d1\<lparr>products := update_rating (product_id review) v (products d1)\<rparr>
             in (Inr [(''message'', ''Review deleted'')], d2)))"

text \<open>
  The primary key of \<^verbatim>\<open>reviews\<close> (\<^verbatim>\<open>mapped_column(primary_key=True)\<close>): no two rows share an
  \<^verbatim>\<open>id\<close>.
\<close>

definition pk_ok :: "db \<Rightarrow> bool" where
  "pk_ok d = distinct (map review_id (reviews d))"

text \<open>
  The rating the specification asks for: the rounded mean of the grades of the active
  reviews of a product, and nothing when it has none. It is stated apart from
  \<open>rating_value\<close>, to compare the stored rating with.
\<close>

definition spec_rating :: "int \<Rightarrow> review list \<Rightarrow> int option" where
  "spec_rating pid rows =
     (let gs = map grade (filter (\<lambda>r. is_active r \<and> product_id r = pid) rows)
      in if length gs = 0 then None
         else Some (py_round (of_int (sum_list gs) / of_int (int (length gs)))))"

text \<open>
  A small database to run the routes on: buyer 7 has an active review (grade 4) of
  product 1, buyer 8 a deleted one; product 2 has no review and product 3 is inactive.
\<close>

definition shop :: db where
  "shop =
     \<lparr>reviews =
        [\<lparr>review_id = 1, user_id = 7, product_id = 1, comment = None, comment_date = 10,
          grade = 4, is_active = True\<rparr>,
         \<lparr>review_id = 2, user_id = 8, product_id = 1, comment = Some ''poor'', comment_date = 11,
          grade = 1, is_active = False\<rparr>],
      products =
        [\<lparr>p_id = 1, p_is_active = True, rating = Some 4\<rparr>,
         \<lparr>p_id = 2, p_is_active = True, rating = None\<rparr>,
         \<lparr>p_id = 3, p_is_active = False, rating = None\<rparr>]\<rparr>"

section \<open>Auxiliary facts\<close>

lemma first_row_None: "first_row rows = None \<longleftrightarrow> rows = []"
  by (cases rows) (simp_all add: first_row_def)

lemma first_row_Some: "first_row rows = Some r \<Longrightarrow> r \<in> set rows"
  by (cases rows) (simp_all add: first_row_def)

lemma first_row_filter_None:
  "first_row (filter P rows) = None \<longleftrightarrow> (\<forall>x\<in>set rows. \<not> P x)"
  by (simp add: first_row_None filter_empty_conv)

lemma first_row_filter_Some:
  "first_row (filter P rows) = Some y \<Longrightarrow> y \<in> set rows \<and> P y"
  using first_row_Some [of "filter P rows" y] by simp

lemma first_row_filter_ex:
  "x \<in> set rows \<Longrightarrow> P x \<Longrightarrow> \<exists>y. first_row (filter P rows) = Some y"
  using first_row_filter_None [of P rows] by (cases "first_row (filter P rows)") auto

section \<open>What each route returns\<close>

text \<open>The product check of \<open>create_review\<close> fails.\<close>

lemma create_review_no_product:
  assumes "\<not> (\<exists>p\<in>set (products d). p_id p = rc_product_id rc \<and> p_is_active p)"
  shows "create_review rc u now d = (Inl (HTTPException 404 ''Product not found or inactive''), d)"
proof -
  have "first_row (filter (\<lambda>p. p_id p = rc_product_id rc \<and> p_is_active p) (products d)) = None"
    using assms by (simp only: first_row_filter_None) blast
  then show ?thesis by (simp add: create_review_def)
qed

text \<open>
  The product check passes and the author has an active review, of whatever product: the
  query behind the duplicate check does not look at \<^verbatim>\<open>product_id\<close>.
\<close>

lemma create_review_any_active_review:
  assumes p: "p \<in> set (products d)" "p_id p = rc_product_id rc" "p_is_active p"
    and r: "r \<in> set (reviews d)" "user_id r = u_id u" "is_active r"
  shows "create_review rc u now d
           = (Inl (HTTPException 409 ''You already have review for this product''), d)"
proof -
  obtain p' where
    "first_row (filter (\<lambda>p. p_id p = rc_product_id rc \<and> p_is_active p) (products d)) = Some p'"
    using first_row_filter_ex [of p "products d" "\<lambda>p. p_id p = rc_product_id rc \<and> p_is_active p"] p
    by blast
  moreover obtain r' where
    "first_row (filter (\<lambda>r. user_id r = u_id u \<and> is_active r) (reviews d)) = Some r'"
    using first_row_filter_ex [of r "reviews d" "\<lambda>r. user_id r = u_id u \<and> is_active r"] r
    by blast
  ultimately show ?thesis by (simp add: create_review_def)
qed

text \<open>Both checks pass: the grade decides.\<close>

lemma create_review_passed:
  assumes p: "p \<in> set (products d)" "p_id p = rc_product_id rc" "p_is_active p"
    and r: "\<forall>r\<in>set (reviews d). user_id r = u_id u \<longrightarrow> \<not> is_active r"
  shows "create_review rc u now d =
          (if rc_grade rc < 1 \<or> 5 < rc_grade rc
           then (Inl (HTTPException 422 ''Unprocessable Entity''), d)
           else (Inr (new_review rc u now d),
                 \<lparr>reviews = reviews d @ [new_review rc u now d],
                  products = update_rating (rc_product_id rc)
                     (rating_value (rc_product_id rc) (reviews d @ [new_review rc u now d]))
                     (products d)\<rparr>))"
proof -
  obtain p' where
    "first_row (filter (\<lambda>p. p_id p = rc_product_id rc \<and> p_is_active p) (products d)) = Some p'"
    using first_row_filter_ex [of p "products d" "\<lambda>p. p_id p = rc_product_id rc \<and> p_is_active p"] p
    by blast
  moreover have "first_row (filter (\<lambda>r. user_id r = u_id u \<and> is_active r) (reviews d)) = None"
    using r by (simp only: first_row_filter_None) blast
  ultimately show ?thesis by (simp add: create_review_def Let_def)
qed

lemma create_review_cases:
  "create_review rc u now d = (Inl (HTTPException 404 ''Product not found or inactive''), d)
   \<or> create_review rc u now d
        = (Inl (HTTPException 409 ''You already have review for this product''), d)
   \<or> create_review rc u now d = (Inl (HTTPException 422 ''Unprocessable Entity''), d)
   \<or> ((\<exists>p\<in>set (products d). p_id p = rc_product_id rc \<and> p_is_active p)
       \<and> (\<forall>r\<in>set (reviews d). user_id r = u_id u \<longrightarrow> \<not> is_active r)
       \<and> 1 \<le> rc_grade rc \<and> rc_grade rc \<le> 5
       \<and> create_review rc u now d =
            (Inr (new_review rc u now d),
             \<lparr>reviews = reviews d @ [new_review rc u now d],
              products = update_rating (rc_product_id rc)
                 (rating_value (rc_product_id rc) (reviews d @ [new_review rc u now d]))
                 (products d)\<rparr>))"
proof (cases "\<exists>p\<in>set (products d). p_id p = rc_product_id rc \<and> p_is_active p")
  case False
  then show ?thesis using create_review_no_product [of d rc u now] by blast
next
  case True
  then obtain p where p: "p \<in> set (products d)" "p_id p = rc_product_id rc" "p_is_active p"
    by blast
  show ?thesis
  proof (cases "\<exists>r\<in>set (reviews d). user_id r = u_id u \<and> is_active r")
    case True
    then show ?thesis using create_review_any_active_review [OF p, of _ u now] by blast
  next
    case False
    then have r: "\<forall>r\<in>set (reviews d). user_id r = u_id u \<longrightarrow> \<not> is_active r" by blast
    show ?thesis
      using create_review_passed [OF p r, of now] True r
      by (cases "rc_grade rc < 1 \<or> 5 < rc_grade rc") simp_all
  qed
qed

text \<open>A review that \<open>create_review\<close> returns is active and has a grade from 1 to 5.\<close>

lemma create_review_persisted:
  assumes "create_review rc u now d = (Inr r, d')"
  shows "1 \<le> grade r \<and> grade r \<le> 5 \<and> is_active r \<and> reviews d' = reviews d @ [r]"
  using create_review_cases [of rc u now d] assms by (auto simp: new_review_def)

lemma pk_unique:
  assumes "pk_ok d" "r \<in> set (reviews d)" "r' \<in> set (reviews d)" "review_id r = review_id r'"
  shows "r = r'"
proof -
  have "inj_on review_id (set (reviews d))"
    using assms(1) by (simp add: pk_ok_def distinct_map)
  then show ?thesis using assms(2-4) by (auto dest: inj_onD)
qed

lemma first_row_pk:
  assumes "pk_ok d" "r \<in> set (reviews d)" "P r" "\<And>x. P x \<Longrightarrow> review_id x = review_id r"
  shows "first_row (filter P (reviews d)) = Some r"
proof -
  obtain y where y: "first_row (filter P (reviews d)) = Some y"
    using first_row_filter_ex [OF assms(2), of P] assms(3) by blast
  then have "y \<in> set (reviews d)" "P y" using first_row_filter_Some [OF y] by simp_all
  then have "y = r" using pk_unique [OF assms(1) _ assms(2), of y] assms(4) by blast
  then show ?thesis using y by simp
qed

lemma delete_review_no_review:
  assumes "\<not> (\<exists>r\<in>set (reviews d). review_id r = rid \<and> is_active r)"
  shows "delete_review rid u d = (Inl (HTTPException 404 ''Review not found or inactive''), d)"
proof -
  have "first_row (filter (\<lambda>r. review_id r = rid \<and> is_active r) (reviews d)) = None"
    using assms by (simp only: first_row_filter_None) blast
  then show ?thesis by (simp add: delete_review_def)
qed

lemma delete_review_forbidden:
  assumes "pk_ok d" "r \<in> set (reviews d)" "review_id r = rid" "is_active r"
    and "user_id r \<noteq> u_id u" "role u \<noteq> ''admin''"
  shows "delete_review rid u d
           = (Inl (HTTPException 403 ''You can only update your own reviews''), d)"
proof -
  have 1: "first_row (filter (\<lambda>r. review_id r = rid \<and> is_active r) (reviews d)) = Some r"
    using first_row_pk [OF assms(1,2), of "\<lambda>r. review_id r = rid \<and> is_active r"] assms(3,4)
    by simp
  have "\<forall>x\<in>set (reviews d). \<not> (review_id x = rid \<and> is_active x
           \<and> (user_id x = u_id u \<or> role u = ''admin''))"
  proof
    fix x assume x: "x \<in> set (reviews d)"
    show "\<not> (review_id x = rid \<and> is_active x
           \<and> (user_id x = u_id u \<or> role u = ''admin''))"
    proof
      assume a: "review_id x = rid \<and> is_active x
           \<and> (user_id x = u_id u \<or> role u = ''admin'')"
      then have "x = r" using pk_unique [OF assms(1) x assms(2)] assms(3) by simp
      then show False using a assms(5,6) by simp
    qed
  qed
  then have 2: "first_row (filter (\<lambda>r. review_id r = rid \<and> is_active r
           \<and> (user_id r = u_id u \<or> role u = ''admin'')) (reviews d)) = None"
    by (simp only: first_row_filter_None)
  show ?thesis by (simp add: delete_review_def 1 2)
qed

lemma delete_review_allowed:
  assumes "pk_ok d" "r \<in> set (reviews d)" "review_id r = rid" "is_active r"
    and "user_id r = u_id u \<or> role u = ''admin''"
  shows "delete_review rid u d
           = (Inr [(''message'', ''Review deleted'')],
              \<lparr>reviews = deactivate rid (reviews d),
               products = update_rating (product_id r)
                  (rating_value (product_id r) (deactivate rid (reviews d))) (products d)\<rparr>)"
proof -
  have 1: "first_row (filter (\<lambda>r. review_id r = rid \<and> is_active r) (reviews d)) = Some r"
    using first_row_pk [OF assms(1,2), of "\<lambda>r. review_id r = rid \<and> is_active r"] assms(3,4)
    by simp
  have 2: "first_row (filter (\<lambda>r. review_id r = rid \<and> is_active r
           \<and> (user_id r = u_id u \<or> role u = ''admin'')) (reviews d)) = Some r"
    using first_row_pk [OF assms(1,2), of "\<lambda>r. review_id r = rid \<and> is_active r
           \<and> (user_id r = u_id u \<or> role u = ''admin'')"] assms(3,4,5)
    by simp
  show ?thesis by (simp add: delete_review_def 1 2 Let_def)
qed

lemma delete_review_cases:
  "delete_review rid u d = (Inl (HTTPException 404 ''Review not found or inactive''), d)
   \<or> delete_review rid u d
        = (Inl (HTTPException 403 ''You can only update your own reviews''), d)
   \<or> (\<exists>r\<in>set (reviews d). review_id r = rid \<and> is_active r
        \<and> delete_review rid u d
           = (Inr [(''message'', ''Review deleted'')],
              \<lparr>reviews = deactivate rid (reviews d),
               products = update_rating (product_id r)
                  (rating_value (product_id r) (deactivate rid (reviews d))) (products d)\<rparr>))"
proof (cases "first_row (filter (\<lambda>r. review_id r = rid \<and> is_active r) (reviews d))")
  case None
  then show ?thesis by (simp add: delete_review_def)
next
  case (Some r)
  note 1 = this
  have r: "r \<in> set (reviews d)" "review_id r = rid \<and> is_active r"
    using first_row_filter_Some [OF 1] by simp_all
  show ?thesis
  proof (cases "first_row (filter (\<lambda>r. review_id r = rid \<and> is_active r
           \<and> (user_id r = u_id u \<or> role u = ''admin'')) (reviews d))")
    case None
    then show ?thesis by (simp add: delete_review_def 1)
  next
    case (Some r')
    then have "delete_review rid u d
           = (Inr [(''message'', ''Review deleted'')],
              \<lparr>reviews = deactivate rid (reviews d),
               products = update_rating (product_id r)
                  (rating_value (product_id r) (deactivate rid (reviews d))) (products d)\<rparr>)"
      by (simp add: delete_review_def 1 Let_def)
    then show ?thesis using r by blast
  qed
qed

text \<open>The key of a new row is above every key of the table, so the primary key is kept.\<close>

lemma fold_max_ge: "(a::int) \<le> fold max xs a \<and> (\<forall>x\<in>set xs. x \<le> fold max xs a)"
proof (induction xs arbitrary: a)
  case Nil
  show ?case by simp
next
  case (Cons y ys)
  from Cons.IH [of "max y a"] show ?case by auto
qed

lemma next_review_id_fresh: "r \<in> set rows \<Longrightarrow> review_id r < next_review_id rows"
  using fold_max_ge [of 0 "map review_id rows"] by (auto simp: next_review_id_def)

lemma pk_ok_create_review:
  assumes "pk_ok d" "create_review rc u now d = (Inr r, d')"
  shows "pk_ok d'"
proof -
  have "reviews d' = reviews d @ [r]" "r = new_review rc u now d"
    using create_review_cases [of rc u now d] assms(2) by auto
  moreover have "review_id (new_review rc u now d) \<notin> review_id ` set (reviews d)"
  proof
    assume "review_id (new_review rc u now d) \<in> review_id ` set (reviews d)"
    then obtain x where "x \<in> set (reviews d)" "review_id x = next_review_id (reviews d)"
      by (auto simp: new_review_def)
    then show False using next_review_id_fresh [of x "reviews d"] by simp
  qed
  ultimately show ?thesis using assms(1) by (simp add: pk_ok_def)
qed

lemma pk_ok_delete_review:
  assumes "pk_ok d" "delete_review rid u d = (x, d')"
  shows "pk_ok d'"
proof -
  have "map review_id (deactivate rid rows) = map review_id rows" for rows
    by (induction rows) (simp_all add: deactivate_def)
  then show ?thesis
    using delete_review_cases [of rid u d] assms by (auto simp: pk_ok_def)
qed

section \<open>Listing\<close>

text \<open>
  C8. Listing returns exactly the reviews with \<^verbatim>\<open>is_active = true\<close>: every active review of
  the store is in the answer, no inactive review is, and the database is left as it was.
\<close>

theorem get_all_rewviews_exact:
  "set (fst (get_all_rewviews d)) = {r. r \<in> set (reviews d) \<and> is_active r}
   \<and> snd (get_all_rewviews d) = d"
  by (auto simp: get_all_rewviews_def)

section \<open>Creating a review\<close>

text \<open>
  C4. When the requested product id is in the range of an \<^verbatim>\<open>INTEGER\<close> and no product with
  that id is active (it is missing, or inactive), \<open>create_review\<close> raises 404 and the
  database, so also the table of reviews, is as before.
\<close>

theorem create_review_not_found:
  assumes "in_integer_range (rc_product_id rc)"
    and "\<not> (\<exists>p\<in>set (products d). p_id p = rc_product_id rc \<and> p_is_active p)"
  shows "create_review rc u now d
           = (Inl (HTTPException 404 ''Product not found or inactive''), d)
         \<and> reviews (snd (create_review rc u now d)) = reviews d"
  using create_review_no_product [OF assms(2), of u now] by simp

text \<open>Product 9 does not exist in \<open>shop\<close> and product 3 is inactive.\<close>

theorem create_review_not_found_witness:
  "in_integer_range 9 \<and> in_integer_range 3
   \<and> \<not> (\<exists>p\<in>set (products shop). p_id p = 9 \<and> p_is_active p)
   \<and> create_review \<lparr>rc_product_id = 9, rc_grade = 5, rc_comment = None\<rparr>
        \<lparr>u_id = 8, role = ''buyer''\<rparr> 12 shop
      = (Inl (HTTPException 404 ''Product not found or inactive''), shop)
   \<and> \<not> (\<exists>p\<in>set (products shop). p_id p = 3 \<and> p_is_active p)
   \<and> create_review \<lparr>rc_product_id = 3, rc_grade = 5, rc_comment = None\<rparr>
        \<lparr>u_id = 8, role = ''buyer''\<rparr> 12 shop
      = (Inl (HTTPException 404 ''Product not found or inactive''), shop)"
proof -
  have 9: "\<not> (\<exists>p\<in>set (products shop).
                p_id p = rc_product_id \<lparr>rc_product_id = 9, rc_grade = 5, rc_comment = None\<rparr>
                \<and> p_is_active p)"
    by (simp add: shop_def)
  have 3: "\<not> (\<exists>p\<in>set (products shop).
                p_id p = rc_product_id \<lparr>rc_product_id = 3, rc_grade = 5, rc_comment = None\<rparr>
                \<and> p_is_active p)"
    by (simp add: shop_def)
  have r9: "in_integer_range
              (rc_product_id \<lparr>rc_product_id = 9, rc_grade = 5, rc_comment = None\<rparr>)"
    by (simp add: in_integer_range_def)
  have r3: "in_integer_range
              (rc_product_id \<lparr>rc_product_id = 3, rc_grade = 5, rc_comment = None\<rparr>)"
    by (simp add: in_integer_range_def)
  show ?thesis
    using create_review_not_found [OF r9 9, of "\<lparr>u_id = 8, role = ''buyer''\<rparr>" 12]
      create_review_not_found [OF r3 3, of "\<lparr>u_id = 8, role = ''buyer''\<rparr>" 12] 9 3 r9 r3
    by simp
qed

text \<open>
  C9. The checks of \<open>create_review\<close> come in the order product, duplicate, grade. Whatever
  the grade \<open>g\<close> of the request and whatever reviews the author has, a product id in the
  range of an \<^verbatim>\<open>INTEGER\<close> with no active product gives 404; and with an active product, an
  active review of the author for that product gives 409, whatever the grade.
\<close>

theorem create_review_check_order:
  "(in_integer_range (rc_product_id rc)
      \<and> \<not> (\<exists>p\<in>set (products d). p_id p = rc_product_id rc \<and> p_is_active p) \<longrightarrow>
      fst (create_review (rc\<lparr>rc_grade := g\<rparr>) u now d)
        = Inl (HTTPException 404 ''Product not found or inactive''))
   \<and> ((\<exists>p\<in>set (products d). p_id p = rc_product_id rc \<and> p_is_active p)
        \<and> (\<exists>r\<in>set (reviews d).
              user_id r = u_id u \<and> product_id r = rc_product_id rc \<and> is_active r) \<longrightarrow>
      fst (create_review (rc\<lparr>rc_grade := g\<rparr>) u now d)
        = Inl (HTTPException 409 ''You already have review for this product''))"
proof (intro conjI impI)
  assume "in_integer_range (rc_product_id rc)
      \<and> \<not> (\<exists>p\<in>set (products d). p_id p = rc_product_id rc \<and> p_is_active p)"
  then show "fst (create_review (rc\<lparr>rc_grade := g\<rparr>) u now d)
        = Inl (HTTPException 404 ''Product not found or inactive'')"
    using create_review_no_product [of d "rc\<lparr>rc_grade := g\<rparr>" u now] by simp
next
  assume a: "(\<exists>p\<in>set (products d). p_id p = rc_product_id rc \<and> p_is_active p)
        \<and> (\<exists>r\<in>set (reviews d).
              user_id r = u_id u \<and> product_id r = rc_product_id rc \<and> is_active r)"
  then obtain p r where "p \<in> set (products d)" "p_id p = rc_product_id (rc\<lparr>rc_grade := g\<rparr>)"
    "p_is_active p" "r \<in> set (reviews d)" "user_id r = u_id u" "is_active r"
    by auto
  then show "fst (create_review (rc\<lparr>rc_grade := g\<rparr>) u now d)
        = Inl (HTTPException 409 ''You already have review for this product'')"
    using create_review_any_active_review [of p d "rc\<lparr>rc_grade := g\<rparr>" r u now] by simp
qed

text \<open>
  In \<open>shop\<close>, a request with grade 0 for the missing product 9, by buyer 7 who has an active
  review, is answered 404; a request with grade 0 for product 1 by buyer 7, who has an
  active review of product 1, is answered 409.
\<close>

theorem create_review_check_order_witness:
  "in_integer_range 9
   \<and> fst (create_review \<lparr>rc_product_id = 9, rc_grade = 0, rc_comment = None\<rparr>
          \<lparr>u_id = 7, role = ''buyer''\<rparr> 12 shop)
     = Inl (HTTPException 404 ''Product not found or inactive'')
   \<and> (\<exists>r\<in>set (reviews shop). user_id r = 7 \<and> product_id r = 1 \<and> is_active r)
   \<and> fst (create_review \<lparr>rc_product_id = 1, rc_grade = 0, rc_comment = None\<rparr>
          \<lparr>u_id = 7, role = ''buyer''\<rparr> 12 shop)
     = Inl (HTTPException 409 ''You already have review for this product'')"
  using create_review_check_order
      [of "\<lparr>rc_product_id = 9, rc_grade = 5, rc_comment = None\<rparr>" shop 0
          "\<lparr>u_id = 7, role = ''buyer''\<rparr>" 12]
    create_review_check_order
      [of "\<lparr>rc_product_id = 1, rc_grade = 5, rc_comment = None\<rparr>" shop 0
          "\<lparr>u_id = 7, role = ''buyer''\<rparr>" 12]
  by (simp add: shop_def in_integer_range_def)

text \<open>
  C1. The duplicate check of \<open>create_review\<close> asks for an active review of the author and
  leaves the product out of the query. In \<open>shop\<close>, buyer 7 has no active review of the
  active product 2 and asks for one with grade 5: the answer is 409, with the detail
  "You already have review for this product", because of the review of product 1.
\<close>

theorem create_review_conflict_other_product:
  "(\<exists>p\<in>set (products shop). p_id p = 2 \<and> p_is_active p)
   \<and> \<not> (\<exists>r\<in>set (reviews shop). user_id r = 7 \<and> product_id r = 2 \<and> is_active r)
   \<and> create_review \<lparr>rc_product_id = 2, rc_grade = 5, rc_comment = None\<rparr>
        \<lparr>u_id = 7, role = ''buyer''\<rparr> 12 shop
      = (Inl (HTTPException 409 ''You already have review for this product''), shop)"
  by code_simp

text \<open>
  C3. The grade is looked at after the duplicate check, which the review of another
  product trips. In \<open>shop\<close>, buyer 7 has no active review of the active product 2: the
  request with grade 0 is answered 409 and not 422, and so is the request with grade 1,
  which is not accepted.
\<close>

theorem create_review_grade_after_conflict:
  "\<not> (\<exists>r\<in>set (reviews shop). user_id r = 7 \<and> product_id r = 2 \<and> is_active r)
   \<and> fst (create_review \<lparr>rc_product_id = 2, rc_grade = 0, rc_comment = None\<rparr>
        \<lparr>u_id = 7, role = ''buyer''\<rparr> 12 shop)
      = Inl (HTTPException 409 ''You already have review for this product'')
   \<and> fst (create_review \<lparr>rc_product_id = 2, rc_grade = 1, rc_comment = None\<rparr>
        \<lparr>u_id = 7, role = ''buyer''\<rparr> 12 shop)
      = Inl (HTTPException 409 ''You already have review for this product'')"
  by code_simp

text \<open>
  What does hold of the grade check: for an active product and an author with no active
  review of any product, a grade outside 1 to 5 gives 422, and a grade from 1 to 5 stores
  the review.
\<close>

lemma create_review_grade:
  assumes "p \<in> set (products d)" "p_id p = rc_product_id rc" "p_is_active p"
    and "\<forall>r\<in>set (reviews d). user_id r = u_id u \<longrightarrow> \<not> is_active r"
  shows "(rc_grade rc < 1 \<or> 5 < rc_grade rc \<longrightarrow>
            create_review rc u now d = (Inl (HTTPException 422 ''Unprocessable Entity''), d))
         \<and> (1 \<le> rc_grade rc \<and> rc_grade rc \<le> 5 \<longrightarrow>
            (\<exists>r d'. create_review rc u now d = (Inr r, d') \<and> grade r = rc_grade rc
                     \<and> is_active r \<and> reviews d' = reviews d @ [r]))"
  using create_review_passed [OF assms, of now] by (auto simp: new_review_def)

section \<open>Deleting a review\<close>

text \<open>
  C6. When the requested id is in the range of an \<^verbatim>\<open>INTEGER\<close> and no review with that id is
  active (the id is unknown, or the review is already inactive), \<open>delete_review\<close> raises
  404.
\<close>

theorem delete_review_not_found:
  assumes "in_integer_range rid"
    and "\<not> (\<exists>r\<in>set (reviews d). review_id r = rid \<and> is_active r)"
  shows "delete_review rid u d = (Inl (HTTPException 404 ''Review not found or inactive''), d)"
  using delete_review_no_review [OF assms(2)] .

text \<open>In \<open>shop\<close> there is no review 99, and review 2 is inactive.\<close>

theorem delete_review_not_found_witness:
  "in_integer_range 99 \<and> in_integer_range 2
   \<and> \<not> (\<exists>r\<in>set (reviews shop). review_id r = 99 \<and> is_active r)
   \<and> delete_review 99 \<lparr>u_id = 8, role = ''buyer''\<rparr> shop
      = (Inl (HTTPException 404 ''Review not found or inactive''), shop)
   \<and> \<not> (\<exists>r\<in>set (reviews shop). review_id r = 2 \<and> is_active r)
   \<and> delete_review 2 \<lparr>u_id = 8, role = ''buyer''\<rparr> shop
      = (Inl (HTTPException 404 ''Review not found or inactive''), shop)"
proof -
  have 99: "\<not> (\<exists>r\<in>set (reviews shop). review_id r = 99 \<and> is_active r)"
    by (simp add: shop_def)
  have 2: "\<not> (\<exists>r\<in>set (reviews shop). review_id r = 2 \<and> is_active r)"
    by (simp add: shop_def)
  have r99: "in_integer_range 99" and r2: "in_integer_range 2"
    by (simp_all add: in_integer_range_def)
  show ?thesis
    using delete_review_not_found [OF r99 99, of "\<lparr>u_id = 8, role = ''buyer''\<rparr>"]
      delete_review_not_found [OF r2 2, of "\<lparr>u_id = 8, role = ''buyer''\<rparr>"] 99 2 r99 r2
    by simp
qed

text \<open>
  C5. Let \<open>r\<close> be the active review with the requested id. A caller who is neither its
  author nor an admin gets 403, and the database is as before, so \<open>r\<close> is still in it,
  active. A caller whose role is admin gets the confirmation, whoever wrote \<open>r\<close>.
\<close>

theorem delete_review_authorisation:
  assumes "pk_ok d" and "r \<in> set (reviews d)" and "review_id r = rid" and "is_active r"
  shows "(user_id r \<noteq> u_id u \<and> role u \<noteq> ''admin'' \<longrightarrow>
            delete_review rid u d
              = (Inl (HTTPException 403 ''You can only update your own reviews''), d)
            \<and> r \<in> set (reviews (snd (delete_review rid u d))))
         \<and> (role u = ''admin'' \<longrightarrow>
            fst (delete_review rid u d) = Inr [(''message'', ''Review deleted'')]
            \<and> r\<lparr>is_active := False\<rparr> \<in> set (reviews (snd (delete_review rid u d))))"
proof (intro conjI impI)
  assume a: "user_id r \<noteq> u_id u \<and> role u \<noteq> ''admin''"
  then have e: "delete_review rid u d
              = (Inl (HTTPException 403 ''You can only update your own reviews''), d)"
    using delete_review_forbidden [OF assms, of u] by simp
  then show "delete_review rid u d
              = (Inl (HTTPException 403 ''You can only update your own reviews''), d)" .
  from e assms(2) show "r \<in> set (reviews (snd (delete_review rid u d)))" by simp
next
  assume a: "role u = ''admin''"
  then have e: "delete_review rid u d
           = (Inr [(''message'', ''Review deleted'')],
              \<lparr>reviews = deactivate rid (reviews d),
               products = update_rating (product_id r)
                  (rating_value (product_id r) (deactivate rid (reviews d))) (products d)\<rparr>)"
    using delete_review_allowed [OF assms, of u] by simp
  then show "fst (delete_review rid u d) = Inr [(''message'', ''Review deleted'')]" by simp
  have "r\<lparr>is_active := False\<rparr> \<in> set (deactivate rid (reviews d))"
    using assms(2,3) by (force simp: deactivate_def)
  then show "r\<lparr>is_active := False\<rparr> \<in> set (reviews (snd (delete_review rid u d)))"
    using e by simp
qed

text \<open>
  Review 1 of \<open>shop\<close> is buyer 7's. Buyer 8 may not delete it; the admin 9 may.
\<close>

theorem delete_review_authorisation_witness:
  "pk_ok shop
   \<and> delete_review 1 \<lparr>u_id = 8, role = ''buyer''\<rparr> shop
      = (Inl (HTTPException 403 ''You can only update your own reviews''), shop)
   \<and> fst (delete_review 1 \<lparr>u_id = 9, role = ''admin''\<rparr> shop)
      = Inr [(''message'', ''Review deleted'')]"
proof -
  let ?r = "\<lparr>review_id = 1, user_id = 7, product_id = 1, comment = None, comment_date = 10,
             grade = 4, is_active = True\<rparr>"
  have pk: "pk_ok shop" by (simp add: pk_ok_def shop_def)
  have r: "?r \<in> set (reviews shop)" by (simp add: shop_def)
  have i: "review_id ?r = 1" and a: "is_active ?r" by simp_all
  show ?thesis
    using delete_review_authorisation [OF pk r i a, of "\<lparr>u_id = 8, role = ''buyer''\<rparr>"]
      delete_review_authorisation [OF pk r i a, of "\<lparr>u_id = 9, role = ''admin''\<rparr>"] pk
    by simp
qed

text \<open>
  C7. A successful \<open>delete_review\<close> returns the confirmation and keeps every row of the
  table in its place: each row keeps its id, author, product, grade, comment and date, it
  is active afterwards exactly if it was active and its id is not the requested one, and a
  row with another id is untouched. The requested review was there and active.
\<close>

theorem delete_review_soft:
  assumes "delete_review rid u d = (Inr m, d')"
  shows "m = [(''message'', ''Review deleted'')]
         \<and> (\<exists>r\<in>set (reviews d). review_id r = rid \<and> is_active r)
         \<and> length (reviews d') = length (reviews d)
         \<and> (\<forall>i<length (reviews d).
              review_id (reviews d' ! i) = review_id (reviews d ! i)
              \<and> user_id (reviews d' ! i) = user_id (reviews d ! i)
              \<and> product_id (reviews d' ! i) = product_id (reviews d ! i)
              \<and> grade (reviews d' ! i) = grade (reviews d ! i)
              \<and> comment (reviews d' ! i) = comment (reviews d ! i)
              \<and> comment_date (reviews d' ! i) = comment_date (reviews d ! i)
              \<and> is_active (reviews d' ! i)
                  = (is_active (reviews d ! i) \<and> review_id (reviews d ! i) \<noteq> rid)
              \<and> (review_id (reviews d ! i) \<noteq> rid \<longrightarrow> reviews d' ! i = reviews d ! i))"
proof -
  from delete_review_cases [of rid u d] assms
  have m: "m = [(''message'', ''Review deleted'')]"
    and ex: "\<exists>r\<in>set (reviews d). review_id r = rid \<and> is_active r"
    and rows: "reviews d' = deactivate rid (reviews d)"
    by auto
  have "length (reviews d') = length (reviews d)"
    by (simp add: rows deactivate_def)
  moreover have "\<forall>i<length (reviews d).
              review_id (reviews d' ! i) = review_id (reviews d ! i)
              \<and> user_id (reviews d' ! i) = user_id (reviews d ! i)
              \<and> product_id (reviews d' ! i) = product_id (reviews d ! i)
              \<and> grade (reviews d' ! i) = grade (reviews d ! i)
              \<and> comment (reviews d' ! i) = comment (reviews d ! i)
              \<and> comment_date (reviews d' ! i) = comment_date (reviews d ! i)
              \<and> is_active (reviews d' ! i)
                  = (is_active (reviews d ! i) \<and> review_id (reviews d ! i) \<noteq> rid)
              \<and> (review_id (reviews d ! i) \<noteq> rid \<longrightarrow> reviews d' ! i = reviews d ! i)"
    by (simp add: rows deactivate_def)
  ultimately show ?thesis using m ex by blast
qed

text \<open>Buyer 7 deletes review 1 of \<open>shop\<close>: the row stays, inactive; review 2 is as it was.\<close>

theorem delete_review_soft_witness:
  "delete_review 1 \<lparr>u_id = 7, role = ''buyer''\<rparr> shop
     = (Inr [(''message'', ''Review deleted'')],
        \<lparr>reviews =
           [\<lparr>review_id = 1, user_id = 7, product_id = 1, comment = None, comment_date = 10,
             grade = 4, is_active = False\<rparr>,
            \<lparr>review_id = 2, user_id = 8, product_id = 1, comment = Some ''poor'',
             comment_date = 11, grade = 1, is_active = False\<rparr>],
         products =
           [\<lparr>p_id = 1, p_is_active = True, rating = None\<rparr>,
            \<lparr>p_id = 2, p_is_active = True, rating = None\<rparr>,
            \<lparr>p_id = 3, p_is_active = False, rating = None\<rparr>]\<rparr>)
   \<and> length (reviews (snd (delete_review 1 \<lparr>u_id = 7, role = ''buyer''\<rparr> shop))) = 2"
proof -
  have e: "delete_review 1 \<lparr>u_id = 7, role = ''buyer''\<rparr> shop
     = (Inr [(''message'', ''Review deleted'')],
        \<lparr>reviews =
           [\<lparr>review_id = 1, user_id = 7, product_id = 1, comment = None, comment_date = 10,
             grade = 4, is_active = False\<rparr>,
            \<lparr>review_id = 2, user_id = 8, product_id = 1, comment = Some ''poor'',
             comment_date = 11, grade = 1, is_active = False\<rparr>],
         products =
           [\<lparr>p_id = 1, p_is_active = True, rating = None\<rparr>,
            \<lparr>p_id = 2, p_is_active = True, rating = None\<rparr>,
            \<lparr>p_id = 3, p_is_active = False, rating = None\<rparr>]\<rparr>)"
    by code_simp
  show ?thesis using delete_review_soft [OF e] e by (simp add: shop_def)
qed

section \<open>The stored rating\<close>

lemma rating_value_spec: "rating_value pid rows = spec_rating pid rows"
proof -
  have "filter (\<lambda>r. product_id r = pid \<and> is_active r) rows
          = filter (\<lambda>r. is_active r \<and> product_id r = pid) rows"
    by (rule filter_cong) auto
  then show ?thesis
    by (simp add: rating_value_def spec_rating_def avg_def Let_def)
qed

lemma update_rating_hit:
  assumes "p \<in> set (update_rating pid v rows)" "p_id p = pid"
  shows "rating p = v"
proof -
  from assms(1) obtain q where q: "p = (if p_id q = pid then q\<lparr>rating := v\<rparr> else q)"
    unfolding update_rating_def set_map by (rule imageE)
  show ?thesis
  proof (cases "p_id q = pid")
    case True
    then show ?thesis using q by simp
  next
    case False
    then show ?thesis using q assms(2) by simp
  qed
qed

lemma update_rating_keeps_ids:
  "map p_id (update_rating pid v rows) = map p_id rows"
  by (induction rows) (simp_all add: update_rating_def)

lemma update_rating_ex:
  assumes "p \<in> set rows" "p_id p = pid"
  shows "\<exists>q\<in>set (update_rating pid v rows). p_id q = pid"
proof -
  have "p_id p \<in> p_id ` set rows" using assms(1) by (rule imageI)
  then have "pid \<in> set (map p_id rows)" by (simp add: assms(2))
  then have "pid \<in> set (map p_id (update_rating pid v rows))"
    by (simp only: update_rating_keeps_ids)
  then obtain q where "q \<in> set (update_rating pid v rows)" "pid = p_id q"
    unfolding set_map by (rule imageE)
  then show ?thesis by blast
qed

text \<open>
  C2. After a successful \<open>create_review\<close> the product of the request is still in the
  table, and after a successful \<open>create_review\<close> or \<open>delete_review\<close> every row of the
  product concerned stores the rounded mean of the grades of its active reviews, as they
  are after the request, and nothing when there is none. Rounding is Python's: with the
  active grades 4 and 5 the mean 4.5 is stored as 4.
\<close>

theorem rating_recomputed:
  "(create_review rc u now d = (Inr r, d') \<longrightarrow>
      (\<exists>p\<in>set (products d'). p_id p = rc_product_id rc)
      \<and> (\<forall>p\<in>set (products d'). p_id p = rc_product_id rc \<longrightarrow>
            rating p = spec_rating (rc_product_id rc) (reviews d')))
   \<and> (delete_review rid u d = (Inr m, d') \<longrightarrow>
      (\<exists>x\<in>set (reviews d). review_id x = rid \<and> is_active x
         \<and> (\<forall>p\<in>set (products d'). p_id p = product_id x \<longrightarrow>
               rating p = spec_rating (product_id x) (reviews d'))))
   \<and> (map grade (filter (\<lambda>x. is_active x \<and> product_id x = pid) rows) = [4, 5] \<longrightarrow>
        rating_value pid rows = Some 4)"
proof (intro conjI impI)
  assume a: "create_review rc u now d = (Inr r, d')"
  with create_review_cases [of rc u now d]
  have p: "\<exists>p\<in>set (products d). p_id p = rc_product_id rc \<and> p_is_active p"
    and d': "d' = \<lparr>reviews = reviews d @ [new_review rc u now d],
              products = update_rating (rc_product_id rc)
                 (rating_value (rc_product_id rc) (reviews d @ [new_review rc u now d]))
                 (products d)\<rparr>"
    by auto
  from p obtain p0 where "p0 \<in> set (products d)" "p_id p0 = rc_product_id rc" by blast
  then show "\<exists>p\<in>set (products d'). p_id p = rc_product_id rc"
    using update_rating_ex [of p0 "products d" "rc_product_id rc"] by (simp add: d')
  show "\<forall>p\<in>set (products d'). p_id p = rc_product_id rc \<longrightarrow>
            rating p = spec_rating (rc_product_id rc) (reviews d')"
  proof (intro ballI impI)
    fix p assume "p \<in> set (products d')" "p_id p = rc_product_id rc"
    then have "rating p = rating_value (rc_product_id rc) (reviews d')"
      using update_rating_hit [of p "rc_product_id rc" _ "products d"] by (simp add: d')
    then show "rating p = spec_rating (rc_product_id rc) (reviews d')"
      by (simp only: rating_value_spec)
  qed
next
  assume a: "delete_review rid u d = (Inr m, d')"
  with delete_review_cases [of rid u d]
  obtain x where x: "x \<in> set (reviews d)" "review_id x = rid" "is_active x"
    and d': "d' = \<lparr>reviews = deactivate rid (reviews d),
               products = update_rating (product_id x)
                  (rating_value (product_id x) (deactivate rid (reviews d))) (products d)\<rparr>"
    by auto
  have "\<forall>p\<in>set (products d'). p_id p = product_id x \<longrightarrow>
               rating p = spec_rating (product_id x) (reviews d')"
  proof (intro ballI impI)
    fix p assume "p \<in> set (products d')" "p_id p = product_id x"
    then have "rating p = rating_value (product_id x) (reviews d')"
      using update_rating_hit [of p "product_id x" _ "products d"] by (simp add: d')
    then show "rating p = spec_rating (product_id x) (reviews d')"
      by (simp only: rating_value_spec)
  qed
  with x show "\<exists>x\<in>set (reviews d). review_id x = rid \<and> is_active x
         \<and> (\<forall>p\<in>set (products d'). p_id p = product_id x \<longrightarrow>
               rating p = spec_rating (product_id x) (reviews d'))"
    by blast
next
  assume "map grade (filter (\<lambda>x. is_active x \<and> product_id x = pid) rows) = [4, 5]"
  then have "spec_rating pid rows = Some (py_round (9 / 2))"
    by (simp add: spec_rating_def)
  moreover have "py_round (9 / 2) = 4" by code_simp
  ultimately show "rating_value pid rows = Some 4"
    by (simp only: rating_value_spec)
qed

text \<open>
  In \<open>shop\<close>, buyer 8 reviews product 1 with grade 5: the active grades of product 1 are
  4 and 5 and its rating is 4. Buyer 7 deletes the only active review of product 1: its
  rating is null.
\<close>

theorem rating_recomputed_witness:
  "fst (create_review \<lparr>rc_product_id = 1, rc_grade = 5, rc_comment = None\<rparr>
          \<lparr>u_id = 8, role = ''buyer''\<rparr> 12 shop)
     = Inr \<lparr>review_id = 3, user_id = 8, product_id = 1, comment = None, comment_date = 12,
            grade = 5, is_active = True\<rparr>
   \<and> map grade (filter (\<lambda>x. is_active x \<and> product_id x = 1)
        (reviews (snd (create_review \<lparr>rc_product_id = 1, rc_grade = 5, rc_comment = None\<rparr>
          \<lparr>u_id = 8, role = ''buyer''\<rparr> 12 shop)))) = [4, 5]
   \<and> map (\<lambda>p. (p_id p, rating p))
        (products (snd (create_review \<lparr>rc_product_id = 1, rc_grade = 5, rc_comment = None\<rparr>
          \<lparr>u_id = 8, role = ''buyer''\<rparr> 12 shop)))
     = [(1, Some 4), (2, None), (3, None)]
   \<and> fst (delete_review 1 \<lparr>u_id = 7, role = ''buyer''\<rparr> shop)
     = Inr [(''message'', ''Review deleted'')]
   \<and> map (\<lambda>p. (p_id p, rating p))
        (products (snd (delete_review 1 \<lparr>u_id = 7, role = ''buyer''\<rparr> shop)))
     = [(1, None), (2, None), (3, None)]"
proof -
  let ?c = "create_review \<lparr>rc_product_id = 1, rc_grade = 5, rc_comment = None\<rparr>
          \<lparr>u_id = 8, role = ''buyer''\<rparr> 12 shop"
  let ?d = "delete_review 1 \<lparr>u_id = 7, role = ''buyer''\<rparr> shop"
  have c1: "fst ?c = Inr \<lparr>review_id = 3, user_id = 8, product_id = 1, comment = None,
            comment_date = 12, grade = 5, is_active = True\<rparr>"
    by code_simp
  have c2: "map grade (filter (\<lambda>x. is_active x \<and> product_id x = 1) (reviews (snd ?c))) = [4, 5]"
    by code_simp
  have c3: "map (\<lambda>p. (p_id p, rating p)) (products (snd ?c)) = [(1, Some 4), (2, None), (3, None)]"
    by code_simp
  have d1: "fst ?d = Inr [(''message'', ''Review deleted'')]"
    by code_simp
  have d3: "map (\<lambda>p. (p_id p, rating p)) (products (snd ?d)) = [(1, None), (2, None), (3, None)]"
    by code_simp
  have c: "?c = (Inr \<lparr>review_id = 3, user_id = 8, product_id = 1, comment = None,
            comment_date = 12, grade = 5, is_active = True\<rparr>, snd ?c)"
    using c1 by (simp only: prod_eq_iff fst_conv snd_conv)
  have d: "?d = (Inr [(''message'', ''Review deleted'')], snd ?d)"
    using d1 by (simp only: prod_eq_iff fst_conv snd_conv)
  note w1 = rating_recomputed [THEN conjunct1, THEN mp, OF c]
  note w2 = rating_recomputed [THEN conjunct2, THEN conjunct1, THEN mp, OF d]
  note w3 = rating_recomputed [THEN conjunct2, THEN conjunct2, THEN mp, OF c2]
  from w1 w2 w3 show ?thesis by - (intro conjI c1 c2 c3 d1 d3)
qed

section \<open>Failing requests write nothing\<close>

text \<open>
  C10. When \<open>create_review\<close> or \<open>delete_review\<close> raises, the database it leaves is the one it
  was given: no row of reviews is added or changed and no rating is written. What
  \<open>create_review\<close> raises is one of 404, 409 and 422, what \<open>delete_review\<close> raises one of 404
  and 403.
\<close>

theorem unchanged_on_error:
  "(fst (create_review rc u now d) = Inl e \<longrightarrow>
      snd (create_review rc u now d) = d
      \<and> e \<in> {HTTPException 404 ''Product not found or inactive'',
              HTTPException 409 ''You already have review for this product'',
              HTTPException 422 ''Unprocessable Entity''})
   \<and> (fst (delete_review rid u d) = Inl e' \<longrightarrow>
      snd (delete_review rid u d) = d
      \<and> e' \<in> {HTTPException 404 ''Review not found or inactive'',
               HTTPException 403 ''You can only update your own reviews''})"
proof (intro conjI impI)
  assume a: "fst (create_review rc u now d) = Inl e"
  from create_review_cases [of rc u now d] a
  show "snd (create_review rc u now d) = d" by auto
  from create_review_cases [of rc u now d] a
  show "e \<in> {HTTPException 404 ''Product not found or inactive'',
              HTTPException 409 ''You already have review for this product'',
              HTTPException 422 ''Unprocessable Entity''}" by auto
next
  assume a: "fst (delete_review rid u d) = Inl e'"
  from delete_review_cases [of rid u d] a
  show "snd (delete_review rid u d) = d" by auto
  from delete_review_cases [of rid u d] a
  show "e' \<in> {HTTPException 404 ''Review not found or inactive'',
               HTTPException 403 ''You can only update your own reviews''}" by auto
qed

text \<open>
  In \<open>shop\<close>, buyer 7 asks for a second review of product 1 and buyer 8 tries to delete
  buyer 7's review: both are refused and \<open>shop\<close> is what is left.
\<close>

theorem unchanged_on_error_witness:
  "fst (create_review \<lparr>rc_product_id = 1, rc_grade = 5, rc_comment = None\<rparr>
          \<lparr>u_id = 7, role = ''buyer''\<rparr> 12 shop)
     = Inl (HTTPException 409 ''You already have review for this product'')
   \<and> snd (create_review \<lparr>rc_product_id = 1, rc_grade = 5, rc_comment = None\<rparr>
          \<lparr>u_id = 7, role = ''buyer''\<rparr> 12 shop) = shop
   \<and> fst (delete_review 1 \<lparr>u_id = 8, role = ''buyer''\<rparr> shop)
     = Inl (HTTPException 403 ''You can only update your own reviews'')
   \<and> snd (delete_review 1 \<lparr>u_id = 8, role = ''buyer''\<rparr> shop) = shop"
proof -
  have c: "fst (create_review \<lparr>rc_product_id = 1, rc_grade = 5, rc_comment = None\<rparr>
          \<lparr>u_id = 7, role = ''buyer''\<rparr> 12 shop)
     = Inl (HTTPException 409 ''You already have review for this product'')"
    by code_simp
  have d: "fst (delete_review 1 \<lparr>u_id = 8, role = ''buyer''\<rparr> shop)
     = Inl (HTTPException 403 ''You can only update your own reviews'')"
    by code_simp
  note w1 = unchanged_on_error [THEN conjunct1, THEN mp, OF c]
  note w2 = unchanged_on_error [THEN conjunct2, THEN mp, OF d]
  from w1 w2 c d show ?thesis by blast
qed

end
